theory Spec2Isabelle
  imports
    Complex_Main
    "HOL-Library.Sublist"
    "HOL-Library.Char_ord"
    "HOL-Library.List_Lexorder"
begin

section \<open>JavaScript numbers\<close>

text \<open>
  A JavaScript number is modelled by the real it denotes, or \<open>NaN\<close>. Arithmetic on
  numbers is exact: the rounding of IEEE-754 doubles, the two infinities and the sign of
  zero are not modelled. \<open>NaN\<close> is kept, because the radius filter relies on it: a
  property that is missing reads as \<open>undefined\<close>, \<open>undefined\<close> in arithmetic is
  \<open>NaN\<close>, and every comparison with \<open>NaN\<close> is false.
\<close>

datatype jsnum = NaN | Num real

text \<open>A numeric operator or \<open>Math\<close> function of one or two arguments: \<open>NaN\<close> in, \<open>NaN\<close> out.\<close>

fun num1 :: "(real \<Rightarrow> real) \<Rightarrow> jsnum \<Rightarrow> jsnum" where
  "num1 f (Num x) = Num (f x)"
| "num1 f NaN = NaN"

fun num2 :: "(real \<Rightarrow> real \<Rightarrow> real) \<Rightarrow> jsnum \<Rightarrow> jsnum \<Rightarrow> jsnum" where
  "num2 f (Num x) (Num y) = Num (f x y)"
| "num2 f _ _ = NaN"

definition js_add :: "jsnum \<Rightarrow> jsnum \<Rightarrow> jsnum" where
  "js_add = num2 (+)"

definition js_sub :: "jsnum \<Rightarrow> jsnum \<Rightarrow> jsnum" where
  "js_sub = num2 (-)"

definition js_mul :: "jsnum \<Rightarrow> jsnum \<Rightarrow> jsnum" where
  "js_mul = num2 (*)"

text \<open>\<open>x / k\<close> for a literal \<open>k\<close> other than zero (the program divides by 180 and by 2 only).\<close>

definition js_div_lit :: "jsnum \<Rightarrow> real \<Rightarrow> jsnum" where
  "js_div_lit x k = num1 (\<lambda>v. v / k) x"

text \<open>\<open>x ** 2\<close>.\<close>

definition js_sq :: "jsnum \<Rightarrow> jsnum" where
  "js_sq = num1 (\<lambda>v. v ^ 2)"

text \<open>\<open>x <= y\<close> on numbers: false as soon as one side is \<open>NaN\<close>.\<close>

fun js_le :: "jsnum \<Rightarrow> jsnum \<Rightarrow> bool" where
  "js_le (Num x) (Num y) = (x \<le> y)"
| "js_le _ _ = False"

text \<open>\<open>ToBoolean\<close> of a number: \<open>0\<close> and \<open>NaN\<close> are falsy.\<close>

fun num_truthy :: "jsnum \<Rightarrow> bool" where
  "num_truthy (Num x) = (x \<noteq> 0)"
| "num_truthy NaN = False"

definition Math_PI :: jsnum where
  "Math_PI = Num pi"

definition Math_sin :: "jsnum \<Rightarrow> jsnum" where
  "Math_sin = num1 sin"

definition Math_cos :: "jsnum \<Rightarrow> jsnum" where
  "Math_cos = num1 cos"

text \<open>\<open>Math.sqrt\<close>: \<open>NaN\<close> below zero.\<close>

fun Math_sqrt :: "jsnum \<Rightarrow> jsnum" where
  "Math_sqrt (Num x) = (if x < 0 then NaN else Num (sqrt x))"
| "Math_sqrt NaN = NaN"

text \<open>\<open>Math.atan2(y, x)\<close> on finite arguments: the angle of the point \<open>(x, y)\<close>.\<close>

definition atan2 :: "real \<Rightarrow> real \<Rightarrow> real" where
  "atan2 y x =
     (if 0 < x then arctan (y / x)
      else if x < 0 then (if 0 \<le> y then arctan (y / x) + pi else arctan (y / x) - pi)
      else if 0 < y then pi / 2
      else if y < 0 then - (pi / 2)
      else 0)"

definition Math_atan2 :: "jsnum \<Rightarrow> jsnum \<Rightarrow> jsnum" where
  "Math_atan2 = num2 atan2"

text \<open>
  A value read from a property of a document, which can hold anything: \<open>undefined\<close>
  (the property is missing), \<open>null\<close>, a boolean, a number, or a value of another kind
  (a string, an array, an object). The program looks at such a value in two ways only:
  \<open>!v\<close> takes \<open>ToBoolean v\<close>, and the arithmetic of the distance function takes
  \<open>ToNumber v\<close>. A value of another kind is therefore given by these two results:
  \<open>''12''\<close> is \<open>VOther True (Num 12)\<close>, the empty string is \<open>VOther False (Num 0)\<close>,
  \<open>''abc''\<close> is \<open>VOther True NaN\<close>, an empty array is \<open>VOther True (Num 0)\<close>.
  \<open>ToNumber undefined\<close> is \<open>NaN\<close>, \<open>ToNumber null\<close> is \<open>0\<close>, \<open>ToNumber true\<close> is \<open>1\<close>.
\<close>

datatype jsval = VUndefined | VNull | VBool bool | VNum jsnum | VOther bool jsnum

fun ToNumber :: "jsval \<Rightarrow> jsnum" where
  "ToNumber VUndefined = NaN"
| "ToNumber VNull = Num 0"
| "ToNumber (VBool b) = Num (if b then 1 else 0)"
| "ToNumber (VNum n) = n"
| "ToNumber (VOther t n) = n"

fun val_truthy :: "jsval \<Rightarrow> bool" where
  "val_truthy VUndefined = False"
| "val_truthy VNull = False"
| "val_truthy (VBool b) = b"
| "val_truthy (VNum n) = num_truthy n"
| "val_truthy (VOther t n) = t"

section \<open>utils/distance.ts: haversineDistance\<close>

record coords =
  latitude :: jsval
  longitude :: jsval

definition toRad :: "jsnum \<Rightarrow> jsnum" where
  "toRad deg = js_div_lit (js_mul deg Math_PI) 180"

definition haversineDistance :: "coords \<Rightarrow> coords \<Rightarrow> jsnum" where
  "haversineDistance coords1 coords2 =
     (let R = Num 6371;
          dLat = toRad (js_sub (ToNumber (latitude coords2)) (ToNumber (latitude coords1)));
          dLon = toRad (js_sub (ToNumber (longitude coords2)) (ToNumber (longitude coords1)));
          lat1 = toRad (ToNumber (latitude coords1));
          lat2 = toRad (ToNumber (latitude coords2));
          a = js_add (js_sq (Math_sin (js_div_lit dLat 2)))
                (js_mul (js_mul (Math_cos lat1) (Math_cos lat2))
                   (js_sq (Math_sin (js_div_lit dLon 2))));
          c = js_mul (Num 2) (Math_atan2 (Math_sqrt a) (Math_sqrt (js_sub (Num 1) a)))
      in js_mul R c)"

text \<open>The coordinate \<open>{latitude: x, longitude: y}\<close> of two numbers.\<close>

definition point :: "real \<Rightarrow> real \<Rightarrow> coords" where
  "point x y = \<lparr>latitude = VNum (Num x), longitude = VNum (Num y)\<rparr>"

section \<open>JavaScript values and strings\<close>

datatype js_error = TypeError | FirebaseError

text \<open>
  A value of type \<open>any\<close>, as the \<open>location\<close> of a user document can hold it: nothing,
  \<open>null\<close>, a boolean, a number, a string (the legacy form of a location), or an object,
  of which only the properties \<open>latitude\<close> and \<open>longitude\<close> are read; each of the
  two can hold any value.
\<close>

datatype anyval =
  JUndefined | JNull | JBool bool | JNumber jsnum | JString string | JObject coords

fun any_truthy :: "anyval \<Rightarrow> bool" where
  "any_truthy JUndefined = False"
| "any_truthy JNull = False"
| "any_truthy (JBool b) = b"
| "any_truthy (JNumber n) = num_truthy n"
| "any_truthy (JString s) = (s \<noteq> [])"
| "any_truthy (JObject c) = True"

fun typeof :: "anyval \<Rightarrow> string" where
  "typeof JUndefined = ''undefined''"
| "typeof JNull = ''object''"
| "typeof (JBool b) = ''boolean''"
| "typeof (JNumber n) = ''number''"
| "typeof (JString s) = ''string''"
| "typeof (JObject c) = ''object''"

text \<open>
  \<open>v.latitude\<close> and \<open>v.longitude\<close>: a TypeError on \<open>undefined\<close> and \<open>null\<close>,
  \<open>undefined\<close> on a boolean, a number or a string.
\<close>

fun get_latitude :: "anyval \<Rightarrow> js_error + jsval" where
  "get_latitude JUndefined = Inl TypeError"
| "get_latitude JNull = Inl TypeError"
| "get_latitude (JObject c) = Inr (latitude c)"
| "get_latitude _ = Inr VUndefined"

fun get_longitude :: "anyval \<Rightarrow> js_error + jsval" where
  "get_longitude JUndefined = Inl TypeError"
| "get_longitude JNull = Inl TypeError"
| "get_longitude (JObject c) = Inr (longitude c)"
| "get_longitude _ = Inr VUndefined"

text \<open>
  A string is a list of characters, each read as the code unit of that number, so the
  strings of the model are the strings of code units below 256. On these,
  \<open>toLowerCase\<close> lowers A to Z and U+00C0 to U+00DE without the sign U+00D7, and
  \<open>trim\<close> strips tab, line feed, vertical tab, form feed, carriage return, space and
  the no-break space U+00A0. Strings with code units from 256 on are not modelled.
\<close>

definition lower_char :: "char \<Rightarrow> char" where
  "lower_char c =
     (if CHR ''A'' \<le> c \<and> c \<le> CHR ''Z'' then char_of (of_char c + (32::nat))
      else if CHR 0xC0 \<le> c \<and> c \<le> CHR 0xDE \<and> c \<noteq> CHR 0xD7
        then char_of (of_char c + (32::nat))
      else c)"

definition toLowerCase :: "string \<Rightarrow> string" where
  "toLowerCase s = map lower_char s"

definition is_space :: "char \<Rightarrow> bool" where
  "is_space c =
     (c = CHR 0x09 \<or> c = CHR 0x0A \<or> c = CHR 0x0B \<or> c = CHR 0x0C \<or> c = CHR 0x0D \<or> c = CHR 0x20 \<or>
      c = CHR 0xA0)"

definition trim :: "string \<Rightarrow> string" where
  "trim s = rev (dropWhile is_space (rev (dropWhile is_space s)))"

text \<open>\<open>s.includes(t)\<close> on strings: \<open>t\<close> occurs in \<open>s\<close>.\<close>

fun str_includes :: "string \<Rightarrow> string \<Rightarrow> bool" where
  "str_includes [] t = (t = [])"
| "str_includes (c # cs) t = (prefix t (c # cs) \<or> str_includes cs t)"

text \<open>\<open>a || b\<close> on an optional string, and on an optional array (an array is truthy).\<close>

fun str_or :: "string option \<Rightarrow> string \<Rightarrow> string" where
  "str_or None d = d"
| "str_or (Some s) d = (if s \<noteq> [] then s else d)"

fun arr_or_empty :: "'a list option \<Rightarrow> 'a list" where
  "arr_or_empty None = []"
| "arr_or_empty (Some xs) = xs"

text \<open>A \<open>Set\<close> of strings in insertion order, and \<open>Set.add\<close>.\<close>

definition set_add :: "string list \<Rightarrow> string \<Rightarrow> string list" where
  "set_add s x = (if x \<in> set s then s else s @ [x])"

section \<open>app/(app)/skills.tsx: the data\<close>

definition ITEMS_PER_PAGE :: int where
  "ITEMS_PER_PAGE = 10"

record UserWithSkills =
  id' :: string
  uid :: string
  displayName :: string
  email :: string
  skillsTeaching :: "string list"
  skillsLearning :: "string list"
  bio :: "string option"
  location :: anyval
  status :: string
  averageRating :: jsval
  reviewCount :: jsval

datatype RoleFilterType = RoleAll | Teaches | Learns

text \<open>A document of the collection \<open>users\<close>: its id and the fields of \<open>doc.data()\<close>.\<close>

record UserDoc =
  doc_id :: string
  d_displayName :: "string option"
  d_email :: "string option"
  d_skillsTeaching :: "string list option"
  d_skillsLearning :: "string list option"
  d_bio :: "string option"
  d_location :: anyval
  d_status :: "string option"
  d_averageRating :: jsval
  d_reviewCount :: jsval

text \<open>The state of the screen (the \<open>useState\<close> cells the functions below read and write).\<close>

record SkillsScreen =
  users :: "UserWithSkills list"
  filteredUsers :: "UserWithSkills list"
  allSkills :: "string list"
  loading :: bool
  refreshing :: bool
  searchText :: string
  selectedSkill :: string
  roleFilter :: RoleFilterType
  useRadiusFilter :: bool
  radius :: jsnum
  currentUserLocation :: "coords option"
  currentPage :: int

section \<open>loadUsers\<close>

text \<open>\<open>data.f && data.f.length > 0\<close> on an optional array.\<close>

fun has_skills :: "string list option \<Rightarrow> bool" where
  "has_skills None = False"
| "has_skills (Some xs) = (length xs > 0)"

definition num_or_zero :: "jsval \<Rightarrow> jsval" where
  "num_or_zero v = (if val_truthy v then v else VNum (Num 0))"

definition mkUser :: "UserDoc \<Rightarrow> UserWithSkills" where
  "mkUser doc =
     \<lparr>id' = doc_id doc,
      uid = doc_id doc,
      displayName = str_or (d_displayName doc) (str_or (d_email doc) ''User''),
      email = str_or (d_email doc) [],
      skillsTeaching = arr_or_empty (d_skillsTeaching doc),
      skillsLearning = arr_or_empty (d_skillsLearning doc),
      bio = Some (str_or (d_bio doc) []),
      location = (if any_truthy (d_location doc) then d_location doc else JNull),
      status = str_or (d_status doc) ''offline'',
      averageRating = num_or_zero (d_averageRating doc),
      reviewCount = num_or_zero (d_reviewCount doc)\<rparr>"

text \<open>
  The body of \<open>querySnapshot.forEach\<close>, on the two accumulators \<open>usersData\<close> and
  \<open>skillsSet\<close>. \<open>user_uid\<close> is \<open>user?.uid\<close>: \<open>None\<close> when nobody is signed in, and then
  \<open>doc.id !== undefined\<close> holds for every document.
\<close>

definition forEach_body ::
  "string option \<Rightarrow> UserWithSkills list \<times> string list \<Rightarrow> UserDoc
     \<Rightarrow> UserWithSkills list \<times> string list" where
  "forEach_body user_uid acc doc =
     (case acc of (usersData, skillsSet) \<Rightarrow>
        if Some (doc_id doc) \<noteq> user_uid then
          if has_skills (d_skillsTeaching doc) \<or> has_skills (d_skillsLearning doc) then
            (usersData @ [mkUser doc],
             foldl set_add (foldl set_add skillsSet (arr_or_empty (d_skillsTeaching doc)))
               (arr_or_empty (d_skillsLearning doc)))
          else (usersData, skillsSet)
        else (usersData, skillsSet))"

text \<open>
  \<open>loadUsers\<close>, given what \<open>getDocs\<close> resolves to: the documents, or the error it
  rejects with (caught: the alert is not modelled, the lists keep their values). The
  \<open>setLoading(true)\<close> before the fetch is overwritten by the \<open>finally\<close> block.
  \<open>Array.from(skillsSet).sort()\<close> sorts distinct strings in the order of their code
  units, which is the order of \<open>sort\<close> on strings here.
\<close>

definition loadUsers ::
  "SkillsScreen \<Rightarrow> string option \<Rightarrow> js_error + UserDoc list \<Rightarrow> SkillsScreen" where
  "loadUsers st user_uid querySnapshot =
     (case querySnapshot of
        Inl e \<Rightarrow> st\<lparr>loading := False, refreshing := False\<rparr>
      | Inr docs \<Rightarrow>
          (case foldl (forEach_body user_uid) ([], []) docs of
             (usersData, skillsSet) \<Rightarrow>
               st\<lparr>users := usersData,
                  allSkills := ''All'' # sort skillsSet,
                  loading := False,
                  refreshing := False\<rparr>))"

section \<open>applyFilters\<close>

definition skillRoleFilter ::
  "string \<Rightarrow> RoleFilterType \<Rightarrow> UserWithSkills list \<Rightarrow> UserWithSkills list" where
  "skillRoleFilter sel role result =
     (if sel \<noteq> ''All'' then
        filter (\<lambda>u.
          let teaches = (sel \<in> set (skillsTeaching u));
              learns = (sel \<in> set (skillsLearning u))
          in if role = Teaches then teaches
             else if role = Learns then learns
             else teaches \<or> learns) result
      else if role = Teaches then filter (\<lambda>u. length (skillsTeaching u) > 0) result
      else if role = Learns then filter (\<lambda>u. length (skillsLearning u) > 0) result
      else result)"

definition searchMatch :: "string \<Rightarrow> UserWithSkills \<Rightarrow> bool" where
  "searchMatch lowerSearch u =
     (str_includes (toLowerCase (displayName u)) lowerSearch \<or>
      str_includes (toLowerCase (email u)) lowerSearch \<or>
      (case bio u of None \<Rightarrow> False | Some b \<Rightarrow> str_includes (toLowerCase b) lowerSearch) \<or>
      list_ex (\<lambda>s. str_includes (toLowerCase s) lowerSearch) (skillsTeaching u) \<or>
      list_ex (\<lambda>s. str_includes (toLowerCase s) lowerSearch) (skillsLearning u))"

definition searchFilter :: "string \<Rightarrow> UserWithSkills list \<Rightarrow> UserWithSkills list" where
  "searchFilter txt result =
     (if trim txt \<noteq> [] then filter (searchMatch (toLowerCase txt)) result else result)"

text \<open>\<open>Array.prototype.filter\<close> with a callback that may throw.\<close>

fun filterE :: "('a \<Rightarrow> js_error + bool) \<Rightarrow> 'a list \<Rightarrow> js_error + 'a list" where
  "filterE p [] = Inr []"
| "filterE p (x # xs) =
     (case p x of
        Inl e \<Rightarrow> Inl e
      | Inr b \<Rightarrow>
          (case filterE p xs of
             Inl e \<Rightarrow> Inl e
           | Inr ys \<Rightarrow> Inr (if b then x # ys else ys)))"

text \<open>
  The callback of the radius filter. The guard returns \<open>false\<close> before any property of
  a \<open>null\<close> location is read; \<open>||\<close> evaluates from the left and stops at the first
  truthy operand.
\<close>

definition radiusKeep :: "coords \<Rightarrow> jsnum \<Rightarrow> UserWithSkills \<Rightarrow> js_error + bool" where
  "radiusKeep cur r u =
     (if \<not> any_truthy (location u) then Inr False
      else if typeof (location u) \<noteq> ''object'' then Inr False
      else
        (case get_latitude (location u) of
           Inl e \<Rightarrow> Inl e
         | Inr lat \<Rightarrow>
             if \<not> val_truthy lat then Inr False
             else
               (case get_longitude (location u) of
                  Inl e \<Rightarrow> Inl e
                | Inr lon \<Rightarrow>
                    let dist = haversineDistance
                          \<lparr>latitude = latitude cur, longitude = longitude cur\<rparr>
                          \<lparr>latitude = lat, longitude = lon\<rparr>
                    in Inr (js_le dist r))))"

definition radiusFilter ::
  "bool \<Rightarrow> coords option \<Rightarrow> jsnum \<Rightarrow> UserWithSkills list \<Rightarrow> js_error + UserWithSkills list" where
  "radiusFilter use cur r result =
     (if use then
        (case cur of
           None \<Rightarrow> Inr result
         | Some c \<Rightarrow> filterE (radiusKeep c r) result)
      else Inr result)"

definition applyFilters :: "SkillsScreen \<Rightarrow> js_error + SkillsScreen" where
  "applyFilters st =
     (let result = users st;
          result = skillRoleFilter (selectedSkill st) (roleFilter st) result;
          result = searchFilter (searchText st) result
      in case radiusFilter (useRadiusFilter st) (currentUserLocation st) (radius st) result of
           Inl e \<Rightarrow> Inl e
         | Inr result \<Rightarrow> Inr (st\<lparr>filteredUsers := result, currentPage := 1\<rparr>))"

section \<open>Pagination\<close>

text \<open>\<open>xs.slice(start, fin)\<close>: a negative index counts from the end.\<close>

definition js_slice :: "'a list \<Rightarrow> int \<Rightarrow> int \<Rightarrow> 'a list" where
  "js_slice xs start fin =
     (let len = int (length xs);
          k = (if start < 0 then max (len + start) 0 else min start len);
          final = (if fin < 0 then max (len + fin) 0 else min fin len)
      in take (nat (final - k)) (drop (nat k) xs))"

definition totalPages :: "SkillsScreen \<Rightarrow> int" where
  "totalPages st = \<lceil>real (length (filteredUsers st)) / real_of_int ITEMS_PER_PAGE\<rceil>"

definition paginatedUsers :: "SkillsScreen \<Rightarrow> UserWithSkills list" where
  "paginatedUsers st =
     js_slice (filteredUsers st) ((currentPage st - 1) * ITEMS_PER_PAGE)
       (currentPage st * ITEMS_PER_PAGE)"

definition nextPage :: "SkillsScreen \<Rightarrow> SkillsScreen" where
  "nextPage st =
     (if currentPage st < totalPages st then st\<lparr>currentPage := currentPage st + 1\<rparr> else st)"

definition prevPage :: "SkillsScreen \<Rightarrow> SkillsScreen" where
  "prevPage st =
     (if currentPage st > 1 then st\<lparr>currentPage := currentPage st - 1\<rparr> else st)"

section \<open>The listener on the current user's document\<close>

text \<open>
  \<open>data\<close> is \<open>docSnap.data()\<close>, \<open>None\<close> when the document does not exist;
  \<open>data?.location\<close> is then \<open>undefined\<close>.
\<close>

definition onUserSnapshot :: "SkillsScreen \<Rightarrow> UserDoc option \<Rightarrow> js_error + SkillsScreen" where
  "onUserSnapshot st data =
     (let loc = (case data of None \<Rightarrow> JUndefined | Some d \<Rightarrow> d_location d)
      in if any_truthy loc then
           (case get_latitude loc of
              Inl e \<Rightarrow> Inl e
            | Inr lat \<Rightarrow>
                (case get_longitude loc of
                   Inl e \<Rightarrow> Inl e
                 | Inr lon \<Rightarrow>
                     Inr (st\<lparr>currentUserLocation := Some \<lparr>latitude = lat, longitude = lon\<rparr>\<rparr>)))
         else Inr (st\<lparr>currentUserLocation := None\<rparr>))"

section \<open>handleOpenMap: the users shown on the map\<close>

text \<open>
  The filter of \<open>handleOpenMap\<close>: a user is on the map when the location is a truthy
  object whose latitude and longitude are both truthy.
\<close>

definition hasMapLocation :: "UserWithSkills \<Rightarrow> js_error + bool" where
  "hasMapLocation u =
     (if \<not> any_truthy (location u) then Inr False
      else if typeof (location u) \<noteq> ''object'' then Inr False
      else
        (case get_latitude (location u) of
           Inl e \<Rightarrow> Inl e
         | Inr lat \<Rightarrow>
             if \<not> val_truthy lat then Inr False
             else
               (case get_longitude (location u) of
                  Inl e \<Rightarrow> Inl e
                | Inr lon \<Rightarrow> Inr (val_truthy lon))))"

definition usersWithLocation :: "UserWithSkills list \<Rightarrow> js_error + UserWithSkills list" where
  "usersWithLocation result = filterE hasMapLocation result"

section \<open>The claims' vocabulary\<close>

text \<open>
  The spec's condition for a user record to be a candidate: it is not the current user,
  and its taught-skill list or its learned-skill list is non-empty (a missing list is
  empty).
\<close>

definition spec_included :: "string option \<Rightarrow> UserDoc \<Rightarrow> bool" where
  "spec_included user_uid doc =
     (Some (doc_id doc) \<noteq> user_uid \<and>
      (arr_or_empty (d_skillsTeaching doc) \<noteq> [] \<or> arr_or_empty (d_skillsLearning doc) \<noteq> []))"

definition doc_skills :: "UserDoc \<Rightarrow> string list" where
  "doc_skills doc = arr_or_empty (d_skillsTeaching doc) @ arr_or_empty (d_skillsLearning doc)"

text \<open>
  A location that is malformed or only partially present: a value that is not an object
  (the legacy string, say), or an object in which the latitude or the longitude is not a
  number (it is missing, \<open>null\<close>, \<open>NaN\<close>, or of another kind). \<open>undefined\<close> and
  \<open>null\<close> are no location at all.
\<close>

fun is_number :: "jsval \<Rightarrow> bool" where
  "is_number (VNum (Num x)) = True"
| "is_number _ = False"

fun malformed :: "anyval \<Rightarrow> bool" where
  "malformed JUndefined = False"
| "malformed JNull = False"
| "malformed (JBool b) = True"
| "malformed (JNumber n) = True"
| "malformed (JString s) = True"
| "malformed (JObject c) = (\<not> (is_number (latitude c) \<and> is_number (longitude c)))"

text \<open>The initial values of the \<open>useState\<close> cells.\<close>

definition initialState :: SkillsScreen where
  "initialState =
     \<lparr>users = [], filteredUsers = [], allSkills = [''All''], loading = True,
      refreshing = False, searchText = [], selectedSkill = ''All'', roleFilter = RoleAll,
      useRadiusFilter = False, radius = Num 10, currentUserLocation = None,
      currentPage = 1\<rparr>"

text \<open>A document with an id, the two skill lists and a location, and no other field.\<close>

definition userDoc :: "string \<Rightarrow> string list \<Rightarrow> string list \<Rightarrow> anyval \<Rightarrow> UserDoc" where
  "userDoc i teach learn loc =
     \<lparr>doc_id = i, d_displayName = None, d_email = None, d_skillsTeaching = Some teach,
      d_skillsLearning = Some learn, d_bio = None, d_location = loc, d_status = None,
      d_averageRating = VUndefined, d_reviewCount = VUndefined\<rparr>"

section \<open>The haversine formula on numbers\<close>

text \<open>The value \<open>a\<close> of the formula, on radians, and the distance it gives.\<close>

definition hav_a :: "real \<Rightarrow> real \<Rightarrow> real \<Rightarrow> real" where
  "hav_a p1 p2 dl = (sin ((p2 - p1) / 2))\<^sup>2 + cos p1 * cos p2 * (sin (dl / 2))\<^sup>2"

definition hav_km :: "real \<Rightarrow> real \<Rightarrow> real \<Rightarrow> real \<Rightarrow> real" where
  "hav_km x1 y1 x2 y2 =
     (let a = hav_a (x1 * pi / 180) (x2 * pi / 180) ((y2 - y1) * pi / 180)
      in 6371 * (2 * atan2 (sqrt a) (sqrt (1 - a))))"

lemma sin_half_sq: "(sin (x / 2))\<^sup>2 = (1 - cos x) / (2::real)"
proof -
  have "cos x = cos (2 * (x / 2))" by simp
  also have "\<dots> = 1 - 2 * (sin (x / 2))\<^sup>2" by (rule cos_double_sin)
  finally show ?thesis by simp
qed

lemma hav_a_full: "(sin ((p2 - p1) / 2))\<^sup>2 + cos p1 * cos p2 = (1 + cos (p1 + p2)) / (2::real)"
  by (simp add: sin_half_sq cos_diff cos_add field_simps)

lemma sin_sq_le_1: "(sin (x::real))\<^sup>2 \<le> 1"
  using abs_sin_le_one [of x] by (simp add: abs_square_le_1)

lemma half_one_plus_nonneg: "- 1 \<le> c \<Longrightarrow> 0 \<le> (1 + c) / (2::real)"
  by simp

lemma half_one_plus_le_1: "c \<le> 1 \<Longrightarrow> (1 + c) / (2::real) \<le> 1"
  by simp

lemma hav_a_nonneg: "0 \<le> hav_a p1 p2 dl"
proof (cases "0 \<le> cos p1 * cos p2")
  case True
  then show ?thesis by (simp add: hav_a_def)
next
  case False
  then have neg: "cos p1 * cos p2 \<le> 0" by simp
  have "cos p1 * cos p2 * 1 \<le> cos p1 * cos p2 * (sin (dl / 2))\<^sup>2"
    using sin_sq_le_1 [of "dl / 2"] neg by (rule mult_left_mono_neg)
  then have "(sin ((p2 - p1) / 2))\<^sup>2 + cos p1 * cos p2 \<le> hav_a p1 p2 dl"
    by (simp add: hav_a_def)
  moreover have "0 \<le> (1 + cos (p1 + p2)) / 2"
    by (rule half_one_plus_nonneg) (rule cos_ge_minus_one)
  ultimately show ?thesis
    unfolding hav_a_full by linarith
qed

lemma hav_a_le_1: "hav_a p1 p2 dl \<le> 1"
proof (cases "0 \<le> cos p1 * cos p2")
  case True
  have "cos p1 * cos p2 * (sin (dl / 2))\<^sup>2 \<le> cos p1 * cos p2 * 1"
    using True sin_sq_le_1 [of "dl / 2"] by (intro mult_left_mono) auto
  then have "hav_a p1 p2 dl \<le> (sin ((p2 - p1) / 2))\<^sup>2 + cos p1 * cos p2"
    by (simp add: hav_a_def)
  moreover have "(1 + cos (p1 + p2)) / 2 \<le> 1"
    by (rule half_one_plus_le_1) (rule cos_le_one)
  ultimately show ?thesis
    unfolding hav_a_full by linarith
next
  case False
  then have "cos p1 * cos p2 \<le> 0" by simp
  then have "cos p1 * cos p2 * (sin (dl / 2))\<^sup>2 \<le> 0"
    by (rule mult_nonpos_nonneg) simp
  then show ?thesis
    using sin_sq_le_1 [of "(p2 - p1) / 2"] by (simp add: hav_a_def)
qed

lemma haversineDistance_point:
  "haversineDistance (point x1 y1) (point x2 y2) = Num (hav_km x1 y1 x2 y2)"
proof -
  let ?a = "hav_a (x1 * pi / 180) (x2 * pi / 180) ((y2 - y1) * pi / 180)"
  have a0: "\<not> ?a < 0" using hav_a_nonneg [of "x1 * pi / 180" "x2 * pi / 180" "(y2 - y1) * pi / 180"] by simp
  have a1: "\<not> 1 - ?a < 0" using hav_a_le_1 [of "x1 * pi / 180" "x2 * pi / 180" "(y2 - y1) * pi / 180"] by simp
  have d: "(x2 - x1) * pi / 180 = x2 * pi / 180 - x1 * pi / 180"
    by (simp add: algebra_simps diff_divide_distrib)
  have A: "js_add (js_sq (Math_sin (js_div_lit (toRad (js_sub (Num x2) (Num x1))) 2)))
                (js_mul (js_mul (Math_cos (toRad (Num x1))) (Math_cos (toRad (Num x2))))
                   (js_sq (Math_sin (js_div_lit (toRad (js_sub (Num y2) (Num y1))) 2)))) = Num ?a"
    by (simp add: js_add_def js_sq_def Math_sin_def Math_cos_def js_div_lit_def toRad_def js_sub_def
        js_mul_def Math_PI_def hav_a_def d)
  show ?thesis
    unfolding haversineDistance_def point_def Let_def
    apply (simp only: coords.simps ToNumber.simps A)
    using a0 a1
    by (simp add: js_sub_def js_mul_def Math_atan2_def hav_km_def Let_def)
qed

lemma num2_NaN_left [simp]: "num2 f NaN y = NaN"
  by simp

lemma num2_NaN_right [simp]: "num2 f x NaN = NaN"
  by (cases x) simp_all

lemma haversineDistance_NaN:
  assumes "ToNumber (latitude c1) = NaN \<or> ToNumber (longitude c1) = NaN \<or>
           ToNumber (latitude c2) = NaN \<or> ToNumber (longitude c2) = NaN"
  shows "haversineDistance c1 c2 = NaN"
  using assms
  by (auto simp: haversineDistance_def Let_def toRad_def js_sub_def js_mul_def js_add_def
      js_div_lit_def js_sq_def Math_sin_def Math_cos_def Math_atan2_def)

section \<open>The loader and the filters: auxiliary facts\<close>

lemma has_skills_iff: "has_skills a = (arr_or_empty a \<noteq> [])"
  by (cases a) simp_all

lemma forEach_body_eq:
  "forEach_body user_uid (us, ss) doc =
     (if spec_included user_uid doc then (us @ [mkUser doc], foldl set_add ss (doc_skills doc))
      else (us, ss))"
  by (simp add: forEach_body_def spec_included_def doc_skills_def has_skills_iff)

lemma foldl_forEach_body:
  "foldl (forEach_body user_uid) (us, ss) docs =
     (us @ map mkUser (filter (spec_included user_uid) docs),
      foldl set_add ss (concat (map doc_skills (filter (spec_included user_uid) docs))))"
  by (induction docs arbitrary: us ss) (simp_all add: forEach_body_eq)

lemma set_foldl_set_add: "set (foldl set_add ss xs) = set ss \<union> set xs"
  by (induction xs arbitrary: ss) (auto simp: set_add_def)

lemma distinct_foldl_set_add: "distinct ss \<Longrightarrow> distinct (foldl set_add ss xs)"
  by (induction xs arbitrary: ss) (auto simp: set_add_def)

lemma users_loadUsers:
  "users (loadUsers st user_uid (Inr docs)) = map mkUser (filter (spec_included user_uid) docs)"
  by (simp add: loadUsers_def foldl_forEach_body)

lemma allSkills_loadUsers:
  "allSkills (loadUsers st user_uid (Inr docs)) =
     ''All'' # sort (foldl set_add [] (concat (map doc_skills (filter (spec_included user_uid) docs))))"
  by (simp add: loadUsers_def foldl_forEach_body)

lemma user_skills_mkUser:
  "set (skillsTeaching (mkUser d)) \<union> set (skillsLearning (mkUser d)) = set (doc_skills d)"
  by (simp add: mkUser_def doc_skills_def)

lemma skillRoleFilter_filter: "\<exists>P. skillRoleFilter sel role us = filter P us"
proof (cases "sel = ''All'' \<and> role = RoleAll")
  case True
  then have "skillRoleFilter sel role us = filter (\<lambda>u. True) us"
    by (simp add: skillRoleFilter_def)
  then show ?thesis by blast
next
  case False
  then show ?thesis
    by (cases role) (auto simp: skillRoleFilter_def Let_def)
qed

lemma radiusKeep_total: "\<exists>b. radiusKeep c r u = Inr b"
  by (cases "location u") (auto simp: radiusKeep_def Let_def)

lemma filterE_total:
  assumes "\<And>x. \<exists>b. p x = Inr b"
  shows "filterE p xs = Inr (filter (\<lambda>x. p x = Inr True) xs)"
proof (induction xs)
  case Nil
  show ?case by simp
next
  case (Cons x xs)
  obtain b where "p x = Inr b" using assms by blast
  with Cons show ?case by simp
qed

lemma radiusFilter_eq:
  "radiusFilter use cur r us =
     Inr (case cur of None \<Rightarrow> us
          | Some c \<Rightarrow> if use then filter (\<lambda>u. radiusKeep c r u = Inr True) us else us)"
  by (simp add: radiusFilter_def filterE_total [OF radiusKeep_total] split: option.splits)

lemma applyFilters_eq:
  "applyFilters st =
     Inr (st\<lparr>filteredUsers :=
               (case currentUserLocation st of None \<Rightarrow> searchFilter (searchText st) (skillRoleFilter (selectedSkill st) (roleFilter st) (users st))
                | Some c \<Rightarrow> if useRadiusFilter st then filter (\<lambda>u. radiusKeep c (radius st) u = Inr True) (searchFilter (searchText st) (skillRoleFilter (selectedSkill st) (roleFilter st) (users st))) else searchFilter (searchText st) (skillRoleFilter (selectedSkill st) (roleFilter st) (users st))),
            currentPage := 1\<rparr>)"
  by (simp add: applyFilters_def Let_def radiusFilter_eq)

lemma subseq_searchFilter: "subseq (searchFilter t us) us"
  by (simp add: searchFilter_def)

lemma subseq_skillRoleFilter: "subseq (skillRoleFilter s r us) us"
proof -
  obtain P where "skillRoleFilter s r us = filter P us"
    using skillRoleFilter_filter by blast
  then show ?thesis by simp
qed

lemma subseq_radius:
  "subseq (case cur of None \<Rightarrow> us
          | Some c \<Rightarrow> if use then filter (\<lambda>u. radiusKeep c r u = Inr True) us else us) us"
  by (simp split: option.splits)

lemma haversineDistance_ToNumber:
  assumes "ToNumber (latitude c1) = ToNumber (latitude d1)"
    and "ToNumber (longitude c1) = ToNumber (longitude d1)"
    and "ToNumber (latitude c2) = ToNumber (latitude d2)"
    and "ToNumber (longitude c2) = ToNumber (longitude d2)"
  shows "haversineDistance c1 c2 = haversineDistance d1 d2"
  unfolding haversineDistance_def using assms by simp

lemma radiusKeep_non_object:
  "typeof (location u) \<noteq> ''object'' \<Longrightarrow> radiusKeep c r u = Inr False"
  by (simp add: radiusKeep_def)

lemma radiusKeep_NaN:
  assumes l: "location u = JObject p"
    and n: "ToNumber (latitude p) = NaN \<or> ToNumber (longitude p) = NaN"
  shows "radiusKeep c r u = Inr False"
proof (cases "val_truthy (latitude p)")
  case False
  then show ?thesis using l by (simp add: radiusKeep_def)
next
  case True
  have "haversineDistance \<lparr>latitude = latitude c, longitude = longitude c\<rparr>
          \<lparr>latitude = latitude p, longitude = longitude p\<rparr> = NaN"
    using n by (intro haversineDistance_NaN) auto
  then show ?thesis using l True by (simp add: radiusKeep_def)
qed

lemma radiusKeep_no_location: "\<not> any_truthy (location u) \<Longrightarrow> radiusKeep c r u = Inr False"
  by (simp add: radiusKeep_def)

lemma radiusKeep_lat0:
  "location u = JObject p \<Longrightarrow> latitude p = VNum (Num 0) \<Longrightarrow> radiusKeep c r u = Inr False"
  by (simp add: radiusKeep_def)

section \<open>The candidate set builder\<close>

text \<open>
  C2: for every fetched list of user documents, the candidates built by \<open>loadUsers\<close>
  are the records of exactly those documents whose id differs from the current user's id
  and whose taught-skill list or learned-skill list is non-empty, in the order of the
  fetch; with distinct document ids, a document's id is among the candidates' ids if
  and only if the document satisfies that condition.
\<close>

theorem loadUsers_candidates:
  "users (loadUsers st user_uid (Inr docs)) = map mkUser (filter (spec_included user_uid) docs) \<and>
   map id' (users (loadUsers st user_uid (Inr docs))) =
     map doc_id (filter (spec_included user_uid) docs) \<and>
   (d \<in> set docs \<longrightarrow> distinct (map doc_id docs) \<longrightarrow>
      (doc_id d \<in> id' ` set (users (loadUsers st user_uid (Inr docs)))) =
      spec_included user_uid d)"
proof -
  let ?inc = "filter (spec_included user_uid) docs"
  have id_mk: "id' (mkUser x) = doc_id x" for x
    by (simp add: mkUser_def)
  have c1: "users (loadUsers st user_uid (Inr docs)) = map mkUser ?inc"
    by (rule users_loadUsers)
  have c2: "map id' (map mkUser ?inc) = map doc_id ?inc"
    by (simp add: id_mk)
  have img: "id' ` set (map mkUser ?inc) = doc_id ` set ?inc"
    by (simp add: image_image id_mk)
  have c3: "(doc_id d \<in> doc_id ` set ?inc) = spec_included user_uid d"
    if "d \<in> set docs" "distinct (map doc_id docs)"
  proof
    assume "doc_id d \<in> doc_id ` set ?inc"
    then obtain e where e: "e \<in> set docs" "spec_included user_uid e" "doc_id e = doc_id d"
      by auto
    from that e(1,3) have "e = d"
      by (metis distinct_map inj_onD)
    with e(2) show "spec_included user_uid d" by simp
  next
    assume "spec_included user_uid d"
    with that(1) show "doc_id d \<in> doc_id ` set ?inc"
      by auto
  qed
  show ?thesis
    unfolding c1 c2 img using c3 by blast
qed

theorem loadUsers_candidates_witness:
  "userDoc ''b'' [] [] JNull \<in> set [userDoc ''me'' [''Guitar''] [] JNull,
       userDoc ''a'' [''Guitar''] [] JNull, userDoc ''b'' [] [] JNull,
       userDoc ''c'' [] [''Piano''] JNull] \<and>
   distinct (map doc_id [userDoc ''me'' [''Guitar''] [] JNull,
       userDoc ''a'' [''Guitar''] [] JNull, userDoc ''b'' [] [] JNull,
       userDoc ''c'' [] [''Piano''] JNull]) \<and>
   map id' (users (loadUsers initialState (Some ''me'') (Inr [userDoc ''me'' [''Guitar''] [] JNull,
       userDoc ''a'' [''Guitar''] [] JNull, userDoc ''b'' [] [] JNull,
       userDoc ''c'' [] [''Piano''] JNull]))) = [''a'', ''c''] \<and>
   ''b'' \<notin> id' ` set (users (loadUsers initialState (Some ''me'') (Inr [userDoc ''me'' [''Guitar''] [] JNull,
       userDoc ''a'' [''Guitar''] [] JNull, userDoc ''b'' [] [] JNull,
       userDoc ''c'' [] [''Piano''] JNull])))"
proof -
  let ?docs = "[userDoc ''me'' [''Guitar''] [] JNull, userDoc ''a'' [''Guitar''] [] JNull,
        userDoc ''b'' [] [] JNull, userDoc ''c'' [] [''Piano''] JNull]"
  let ?d = "userDoc ''b'' [] [] JNull"
  note t = loadUsers_candidates [of initialState "Some ''me''" ?docs ?d]
  have m: "?d \<in> set ?docs" by simp
  have dist: "distinct (map doc_id ?docs)" by (simp add: userDoc_def)
  have inc: "filter (spec_included (Some ''me'')) ?docs =
      [userDoc ''a'' [''Guitar''] [] JNull, userDoc ''c'' [] [''Piano''] JNull]"
    by (simp add: spec_included_def userDoc_def)
  have ids: "map id' (users (loadUsers initialState (Some ''me'') (Inr ?docs))) = [''a'', ''c'']"
    using t [THEN conjunct2, THEN conjunct1] unfolding inc by (simp add: userDoc_def)
  have "\<not> spec_included (Some ''me'') ?d"
    by (simp add: spec_included_def userDoc_def)
  then have out: "doc_id ?d \<notin> id' ` set (users (loadUsers initialState (Some ''me'') (Inr ?docs)))"
    using t [THEN conjunct2, THEN conjunct2] m dist by blast
  have "doc_id ?d = ''b''" by (simp add: userDoc_def)
  with out m dist ids show ?thesis by simp
qed

text \<open>
  C10: after a successful load the skill selector list is the sentinel \<open>''All''\<close>
  followed by a sorted list without duplicates whose elements are exactly the skill names
  in the taught and learned lists of the candidates.
\<close>

theorem loadUsers_allSkills:
  "\<exists>ys. allSkills (loadUsers st user_uid (Inr docs)) = ''All'' # ys \<and>
        sorted ys \<and> distinct ys \<and>
        set ys = (\<Union>u \<in> set (users (loadUsers st user_uid (Inr docs))).
                    set (skillsTeaching u) \<union> set (skillsLearning u))"
proof -
  let ?inc = "filter (spec_included user_uid) docs"
  let ?ys = "sort (foldl set_add [] (concat (map doc_skills ?inc)))"
  have "set ?ys = (\<Union>d \<in> set ?inc. set (doc_skills d))"
    by (simp add: set_foldl_set_add)
  also have "\<dots> = (\<Union>u \<in> set (map mkUser ?inc). set (skillsTeaching u) \<union> set (skillsLearning u))"
    by (simp add: user_skills_mkUser)
  finally have "set ?ys = (\<Union>u \<in> set (users (loadUsers st user_uid (Inr docs))).
                    set (skillsTeaching u) \<union> set (skillsLearning u))"
    by (simp only: users_loadUsers)
  moreover have "distinct ?ys" by (simp add: distinct_foldl_set_add)
  moreover have "sorted ?ys" by simp
  ultimately show ?thesis
    using allSkills_loadUsers [of st user_uid docs] by blast
qed

theorem loadUsers_allSkills_witness:
  "allSkills (loadUsers initialState (Some ''me'')
       (Inr [userDoc ''me'' [''Zither''] [] JNull,
             userDoc ''a'' [''Piano'', ''Guitar''] [''Chess''] JNull,
             userDoc ''b'' [] [] JNull,
             userDoc ''c'' [''Chess''] [''Piano'', ''All''] JNull])) =
     [''All'', ''All'', ''Chess'', ''Guitar'', ''Piano''] \<and>
   sorted [''All'', ''Chess'', ''Guitar'', ''Piano''] \<and>
   distinct [''All'', ''Chess'', ''Guitar'', ''Piano'']"
proof -
  let ?st = "loadUsers initialState (Some ''me'')
       (Inr [userDoc ''me'' [''Zither''] [] JNull,
             userDoc ''a'' [''Piano'', ''Guitar''] [''Chess''] JNull,
             userDoc ''b'' [] [] JNull,
             userDoc ''c'' [''Chess''] [''Piano'', ''All''] JNull])"
  obtain ys where ys: "allSkills ?st = ''All'' # ys" "sorted ys" "distinct ys"
    using loadUsers_allSkills [of initialState "Some ''me''"
       "[userDoc ''me'' [''Zither''] [] JNull,
             userDoc ''a'' [''Piano'', ''Guitar''] [''Chess''] JNull,
             userDoc ''b'' [] [] JNull,
             userDoc ''c'' [''Chess''] [''Piano'', ''All''] JNull]"]
    by blast
  have e: "allSkills ?st = [''All'', ''All'', ''Chess'', ''Guitar'', ''Piano'']"
    by code_simp
  from ys(1) e have "ys = [''All'', ''Chess'', ''Guitar'', ''Piano'']" by simp
  with ys e show ?thesis by simp
qed

section \<open>The filter pipeline\<close>

text \<open>
  C3: with a selected skill other than \<open>''All''\<close>, the skill and role stage keeps a
  candidate exactly when the skill is in its taught list (role Teaches), in its learned
  list (role Learns), or in either list (role All). With \<open>''All''\<close> selected it keeps a
  candidate exactly when its taught list is non-empty (Teaches), its learned list is
  non-empty (Learns), and every candidate under role All. For three candidates of which
  only \<open>X\<close> has \<open>''Guitar''\<close> in its taught list, skill \<open>''Guitar''\<close> with role Teaches
  yields exactly \<open>{X}\<close>.
\<close>

theorem skillRoleFilter_cases:
  "(sel \<noteq> ''All'' \<longrightarrow>
      skillRoleFilter sel Teaches us = filter (\<lambda>u. sel \<in> set (skillsTeaching u)) us \<and>
      skillRoleFilter sel Learns us = filter (\<lambda>u. sel \<in> set (skillsLearning u)) us \<and>
      skillRoleFilter sel RoleAll us =
        filter (\<lambda>u. sel \<in> set (skillsTeaching u) \<or> sel \<in> set (skillsLearning u)) us) \<and>
   skillRoleFilter ''All'' Teaches us = filter (\<lambda>u. skillsTeaching u \<noteq> []) us \<and>
   skillRoleFilter ''All'' Learns us = filter (\<lambda>u. skillsLearning u \<noteq> []) us \<and>
   skillRoleFilter ''All'' RoleAll us = us \<and>
   (length us = 3 \<longrightarrow> X \<in> set us \<longrightarrow>
      (\<forall>u \<in> set us. (''Guitar'' \<in> set (skillsTeaching u)) = (u = X)) \<longrightarrow>
      set (skillRoleFilter ''Guitar'' Teaches us) = {X})"
proof -
  have specific: "skillRoleFilter s Teaches us = filter (\<lambda>u. s \<in> set (skillsTeaching u)) us \<and>
      skillRoleFilter s Learns us = filter (\<lambda>u. s \<in> set (skillsLearning u)) us \<and>
      skillRoleFilter s RoleAll us =
        filter (\<lambda>u. s \<in> set (skillsTeaching u) \<or> s \<in> set (skillsLearning u)) us"
    if "s \<noteq> ''All''" for s
    unfolding skillRoleFilter_def Let_def using that by simp
  have a1: "skillRoleFilter ''All'' Teaches us = filter (\<lambda>u. skillsTeaching u \<noteq> []) us"
    unfolding skillRoleFilter_def by simp
  have a2: "skillRoleFilter ''All'' Learns us = filter (\<lambda>u. skillsLearning u \<noteq> []) us"
    unfolding skillRoleFilter_def by simp
  have a3: "skillRoleFilter ''All'' RoleAll us = us"
    unfolding skillRoleFilter_def by simp
  have guitar: "set (skillRoleFilter ''Guitar'' Teaches us) = {X}"
    if "X \<in> set us" "\<forall>u \<in> set us. (''Guitar'' \<in> set (skillsTeaching u)) = (u = X)"
  proof -
    have "''Guitar'' \<noteq> ''All''" by simp
    then have "skillRoleFilter ''Guitar'' Teaches us =
        filter (\<lambda>u. ''Guitar'' \<in> set (skillsTeaching u)) us"
      by (rule specific [THEN conjunct1])
    moreover have "set (filter (\<lambda>u. ''Guitar'' \<in> set (skillsTeaching u)) us) = {X}"
      using that by auto
    ultimately show ?thesis by simp
  qed
  show ?thesis
  proof (intro conjI impI)
    assume "sel \<noteq> ''All''"
    note s = specific [OF this]
    show "skillRoleFilter sel Teaches us = filter (\<lambda>u. sel \<in> set (skillsTeaching u)) us"
      by (rule s [THEN conjunct1])
    show "skillRoleFilter sel Learns us = filter (\<lambda>u. sel \<in> set (skillsLearning u)) us"
      by (rule s [THEN conjunct2, THEN conjunct1])
    show "skillRoleFilter sel RoleAll us =
        filter (\<lambda>u. sel \<in> set (skillsTeaching u) \<or> sel \<in> set (skillsLearning u)) us"
      by (rule s [THEN conjunct2, THEN conjunct2])
  next
    show "skillRoleFilter ''All'' Teaches us = filter (\<lambda>u. skillsTeaching u \<noteq> []) us"
      by (rule a1)
    show "skillRoleFilter ''All'' Learns us = filter (\<lambda>u. skillsLearning u \<noteq> []) us"
      by (rule a2)
    show "skillRoleFilter ''All'' RoleAll us = us"
      by (rule a3)
  next
    assume "X \<in> set us"
      and "\<forall>u \<in> set us. (''Guitar'' \<in> set (skillsTeaching u)) = (u = X)"
    then show "set (skillRoleFilter ''Guitar'' Teaches us) = {X}"
      by (rule guitar)
  qed
qed

theorem skillRoleFilter_cases_witness:
  "length [mkUser (userDoc ''a'' [''Piano''] [''Guitar''] JNull),
           mkUser (userDoc ''x'' [''Guitar''] [] JNull),
           mkUser (userDoc ''b'' [] [''Chess''] JNull)] = 3 \<and>
   ''Guitar'' \<noteq> ''All'' \<and>
   skillRoleFilter ''Guitar'' Teaches
      [mkUser (userDoc ''a'' [''Piano''] [''Guitar''] JNull),
       mkUser (userDoc ''x'' [''Guitar''] [] JNull),
       mkUser (userDoc ''b'' [] [''Chess''] JNull)] =
     [mkUser (userDoc ''x'' [''Guitar''] [] JNull)] \<and>
   set (skillRoleFilter ''Guitar'' Teaches
      [mkUser (userDoc ''a'' [''Piano''] [''Guitar''] JNull),
       mkUser (userDoc ''x'' [''Guitar''] [] JNull),
       mkUser (userDoc ''b'' [] [''Chess''] JNull)]) =
     {mkUser (userDoc ''x'' [''Guitar''] [] JNull)}"
proof -
  let ?a = "mkUser (userDoc ''a'' [''Piano''] [''Guitar''] JNull)"
  let ?x = "mkUser (userDoc ''x'' [''Guitar''] [] JNull)"
  let ?b = "mkUser (userDoc ''b'' [] [''Chess''] JNull)"
  let ?us = "[?a, ?x, ?b]"
  note t = skillRoleFilter_cases [of "''Guitar''" ?us ?x]
  have ne: "''Guitar'' \<noteq> ''All''" by simp
  have len: "length ?us = 3" by simp
  have mem: "?x \<in> set ?us" by simp
  have ta: "skillsTeaching ?a = [''Piano'']" by (simp add: mkUser_def userDoc_def)
  have tx: "skillsTeaching ?x = [''Guitar'']" by (simp add: mkUser_def userDoc_def)
  have tb: "skillsTeaching ?b = []" by (simp add: mkUser_def userDoc_def)
  have "?a \<noteq> ?x" by (simp add: mkUser_def userDoc_def)
  moreover have "?b \<noteq> ?x" by (simp add: mkUser_def userDoc_def)
  ultimately have only: "\<forall>u \<in> set ?us. (''Guitar'' \<in> set (skillsTeaching u)) = (u = ?x)"
    by (simp add: ta tx tb)
  have s: "set (skillRoleFilter ''Guitar'' Teaches ?us) = {?x}"
    using t [THEN conjunct2, THEN conjunct2, THEN conjunct2, THEN conjunct2] len mem only
    by (rule_tac mp [OF mp [OF mp]])
  have "skillRoleFilter ''Guitar'' Teaches ?us =
          filter (\<lambda>u. ''Guitar'' \<in> set (skillsTeaching u)) ?us"
    using t [THEN conjunct1] ne by (rule_tac conjunct1 [OF mp])
  also have "\<dots> = [?x]"
    by (simp add: ta tx tb)
  finally show ?thesis using s len ne by simp
qed

text \<open>
  C4: with the radius toggle on and no coordinate of the current user, the radius stage
  returns its input unchanged, whatever the candidates' locations are, and
  \<open>applyFilters\<close> stores the output of the search stage; the listener on the current
  user's document stores no coordinate when the document has no location.
\<close>

theorem radius_skipped_without_own_coordinate:
  "radiusFilter True None r us = Inr us \<and>
   (useRadiusFilter st \<longrightarrow> currentUserLocation st = None \<longrightarrow>
      applyFilters st =
        Inr (st\<lparr>filteredUsers :=
                   searchFilter (searchText st)
                     (skillRoleFilter (selectedSkill st) (roleFilter st) (users st)),
                currentPage := 1\<rparr>)) \<and>
   (\<not> any_truthy (case data of None \<Rightarrow> JUndefined | Some d \<Rightarrow> d_location d) \<longrightarrow>
      onUserSnapshot st data = Inr (st\<lparr>currentUserLocation := None\<rparr>))"
  by (simp add: radiusFilter_def applyFilters_def onUserSnapshot_def Let_def)

theorem radius_skipped_without_own_coordinate_witness:
  "useRadiusFilter (initialState\<lparr>users := [mkUser (userDoc ''a'' [''Guitar''] [] JNull)],
        useRadiusFilter := True\<rparr>) \<and>
   currentUserLocation (initialState\<lparr>users := [mkUser (userDoc ''a'' [''Guitar''] [] JNull)],
        useRadiusFilter := True\<rparr>) = None \<and>
   applyFilters (initialState\<lparr>users := [mkUser (userDoc ''a'' [''Guitar''] [] JNull)],
        useRadiusFilter := True\<rparr>) =
     Inr (initialState\<lparr>users := [mkUser (userDoc ''a'' [''Guitar''] [] JNull)],
        useRadiusFilter := True,
        filteredUsers := [mkUser (userDoc ''a'' [''Guitar''] [] JNull)], currentPage := 1\<rparr>) \<and>
   onUserSnapshot initialState (Some (userDoc ''me'' [] [] JNull)) =
     Inr (initialState\<lparr>currentUserLocation := None\<rparr>)"
proof -
  let ?u = "mkUser (userDoc ''a'' [''Guitar''] [] JNull)"
  let ?st = "initialState\<lparr>users := [?u], useRadiusFilter := True\<rparr>"
  let ?data = "Some (userDoc ''me'' [] [] JNull)"
  note t = radius_skipped_without_own_coordinate [where st = ?st and data = ?data]
  note t' = radius_skipped_without_own_coordinate [where st = initialState and data = ?data]
  have h1: "useRadiusFilter ?st" by simp
  have h2: "currentUserLocation ?st = None" by (simp add: initialState_def)
  have h3: "\<not> any_truthy (case ?data of None \<Rightarrow> JUndefined | Some d \<Rightarrow> d_location d)"
    by (simp add: userDoc_def)
  have a: "applyFilters ?st =
        Inr (?st\<lparr>filteredUsers :=
                   searchFilter (searchText ?st)
                     (skillRoleFilter (selectedSkill ?st) (roleFilter ?st) (users ?st)),
                currentPage := 1\<rparr>)"
    using t [THEN conjunct2, THEN conjunct1] h1 h2 by (rule_tac mp [OF mp])
  have f: "searchFilter (searchText ?st)
             (skillRoleFilter (selectedSkill ?st) (roleFilter ?st) (users ?st)) = [?u]"
    by (simp add: initialState_def searchFilter_def skillRoleFilter_def trim_def)
  have b: "onUserSnapshot initialState ?data = Inr (initialState\<lparr>currentUserLocation := None\<rparr>)"
    using t' [THEN conjunct2, THEN conjunct2] h3 by (rule_tac mp)
  show ?thesis
    using h1 h2 a b unfolding f by simp
qed

text \<open>
  C6: for every state of the screen, \<open>applyFilters\<close> returns, and the list it stores is
  a subsequence of the candidate list: the kept candidates in their order in the input.
\<close>

theorem applyFilters_subseq:
  "\<exists>st'. applyFilters st = Inr st' \<and> subseq (filteredUsers st') (users st)"
proof -
  let ?a = "skillRoleFilter (selectedSkill st) (roleFilter st) (users st)"
  let ?b = "searchFilter (searchText st) ?a"
  let ?c = "(case currentUserLocation st of None \<Rightarrow> ?b
          | Some c \<Rightarrow> if useRadiusFilter st then filter (\<lambda>u. radiusKeep c (radius st) u = Inr True) ?b else ?b)"
  have "subseq ?c ?b" by (rule subseq_radius)
  also have "subseq ?b ?a" by (rule subseq_searchFilter)
  also have "subseq ?a (users st)" by (rule subseq_skillRoleFilter)
  finally have "subseq ?c (users st)" .
  then show ?thesis by (simp add: applyFilters_eq)
qed

theorem applyFilters_subseq_witness:
  "\<exists>st'. applyFilters (initialState\<lparr>users := [mkUser (userDoc ''a'' [''Guitar''] [] JNull),
                mkUser (userDoc ''b'' [] [''Piano''] JNull)], roleFilter := Learns\<rparr>) = Inr st' \<and>
     subseq (filteredUsers st')
       (users (initialState\<lparr>users := [mkUser (userDoc ''a'' [''Guitar''] [] JNull),
                mkUser (userDoc ''b'' [] [''Piano''] JNull)], roleFilter := Learns\<rparr>))"
  by (rule applyFilters_subseq)

text \<open>
  C9: when the radius filter is active and the current user's coordinate is known, a
  candidate whose stored latitude is exactly 0 is removed by the radius stage, whatever
  its longitude, the current user's coordinate and the radius are: the guard tests the
  truthiness of the latitude.
\<close>

theorem latitude_zero_removed:
  "location u = JObject p \<Longrightarrow> latitude p = VNum (Num 0) \<Longrightarrow>
     radiusKeep c r u = Inr False \<and>
     (\<exists>ys. radiusFilter True (Some c) r us = Inr ys \<and> u \<notin> set ys)"
  by (simp add: radiusFilter_eq radiusKeep_lat0)

theorem latitude_zero_removed_witness:
  "location (mkUser (userDoc ''z'' [''Guitar''] [] (JObject (point 0 0)))) = JObject (point 0 0) \<and>
   latitude (point 0 0) = VNum (Num 0) \<and>
   haversineDistance (point 0 0) (point 0 0) = Num 0 \<and>
   radiusKeep (point 0 0) (Num 5) (mkUser (userDoc ''z'' [''Guitar''] [] (JObject (point 0 0)))) =
     Inr False"
proof -
  let ?z = "mkUser (userDoc ''z'' [''Guitar''] [] (JObject (point 0 0)))"
  have l: "location ?z = JObject (point 0 0)" by (simp add: mkUser_def userDoc_def)
  have la: "latitude (point 0 0) = VNum (Num 0)" by (simp add: point_def)
  have d: "haversineDistance (point 0 0) (point 0 0) = Num 0"
    by (simp add: haversineDistance_point hav_km_def hav_a_def atan2_def)
  from latitude_zero_removed [OF l la, of "point 0 0" "Num 5" "[]"] l la d
  show ?thesis by blast
qed

section \<open>The pages\<close>

lemma lt_totalPages_iff: "p < totalPages st \<longleftrightarrow> p * 10 < int (length (filteredUsers st))"
proof -
  have "p < totalPages st \<longleftrightarrow> real_of_int p < real (length (filteredUsers st)) / 10"
    by (simp add: totalPages_def ITEMS_PER_PAGE_def less_ceiling_iff)
  also have "\<dots> \<longleftrightarrow> real_of_int (p * 10) < real_of_int (int (length (filteredUsers st)))"
    by simp
  also have "\<dots> \<longleftrightarrow> p * 10 < int (length (filteredUsers st))"
    by (rule of_int_less_iff)
  finally show ?thesis .
qed

lemma totalPages_le_iff: "totalPages st \<le> p \<longleftrightarrow> int (length (filteredUsers st)) \<le> p * 10"
  using lt_totalPages_iff [of p st] by linarith

lemma js_slice_nonneg:
  assumes "0 \<le> s" "s \<le> f"
  shows "js_slice xs s f = take (nat (f - s)) (drop (nat s) xs)"
proof (cases "s < int (length xs)")
  case True
  note lt = this
  show ?thesis
  proof (cases "f \<le> int (length xs)")
    case True
    with lt assms show ?thesis by (simp add: js_slice_def Let_def min_def)
  next
    case False
    with lt assms have "js_slice xs s f = take (nat (int (length xs) - s)) (drop (nat s) xs)"
      by (simp add: js_slice_def Let_def min_def)
    also have "\<dots> = drop (nat s) xs"
      using assms by (intro take_all) (simp add: nat_diff_distrib)
    also have "\<dots> = take (nat (f - s)) (drop (nat s) xs)"
      using False assms lt by (intro take_all [symmetric]) simp
    finally show ?thesis .
  qed
next
  case False
  with assms have "js_slice xs s f = []"
    by (simp add: js_slice_def Let_def min_def)
  moreover have "drop (nat s) xs = []" using False by simp
  ultimately show ?thesis by simp
qed

lemma paginatedUsers_eq:
  assumes "1 \<le> currentPage st"
  shows "paginatedUsers st = take 10 (drop (nat ((currentPage st - 1) * 10)) (filteredUsers st))"
proof -
  have "nat (currentPage st * 10 - (currentPage st - 1) * 10) = 10" by simp
  moreover have "0 \<le> (currentPage st - 1) * 10" using assms by simp
  moreover have "(currentPage st - 1) * 10 \<le> currentPage st * 10" by simp
  ultimately show ?thesis
    unfolding paginatedUsers_def ITEMS_PER_PAGE_def
    using js_slice_nonneg [of "(currentPage st - 1) * 10" "currentPage st * 10" "filteredUsers st"]
    by simp
qed

lemma length_paginatedUsers:
  "1 \<le> currentPage st \<Longrightarrow>
   length (paginatedUsers st) = min 10 (length (filteredUsers st) - nat ((currentPage st - 1) * 10))"
  by (simp add: paginatedUsers_eq)

lemma totalPages_nextPage: "totalPages (nextPage st) = totalPages st"
  by (simp add: totalPages_def nextPage_def)

lemma totalPages_prevPage: "totalPages (prevPage st) = totalPages st"
  by (simp add: totalPages_def prevPage_def)

text \<open>
  C5: from page 1 on, the displayed page is the slice of ten items of the filtered list
  that starts at item \<open>10 * (currentPage - 1)\<close>; every page before the last has exactly
  10 items and the last page has between 1 and 10. With 25 filtered results there are 3
  pages, page 1 has 10 items and page 3 has 5, and \<open>nextPage\<close> on page 3 changes
  nothing. \<open>nextPage\<close> on the last page and \<open>prevPage\<close> on page 1 leave the state
  unchanged, so a current page within \<open>[1, totalPages]\<close> stays within it under both
  operations.
\<close>

theorem pagination:
  "(1 \<le> currentPage st \<longrightarrow>
      paginatedUsers st =
        take 10 (drop (nat ((currentPage st - 1) * 10)) (filteredUsers st))) \<and>
   (1 \<le> currentPage st \<longrightarrow> currentPage st < totalPages st \<longrightarrow>
      length (paginatedUsers st) = 10) \<and>
   (1 \<le> currentPage st \<longrightarrow> currentPage st = totalPages st \<longrightarrow>
      1 \<le> length (paginatedUsers st) \<and> length (paginatedUsers st) \<le> 10 \<and>
      length (paginatedUsers st) =
        length (filteredUsers st) - 10 * nat (currentPage st - 1)) \<and>
   (length (filteredUsers st) = 25 \<longrightarrow>
      totalPages st = 3 \<and>
      (currentPage st = 1 \<longrightarrow> length (paginatedUsers st) = 10) \<and>
      (currentPage st = 3 \<longrightarrow> length (paginatedUsers st) = 5 \<and> nextPage st = st)) \<and>
   (currentPage st = totalPages st \<longrightarrow> nextPage st = st) \<and>
   (currentPage st = 1 \<longrightarrow> prevPage st = st) \<and>
   (1 \<le> currentPage st \<longrightarrow> currentPage st \<le> totalPages st \<longrightarrow>
      1 \<le> currentPage (nextPage st) \<and> currentPage (nextPage st) \<le> totalPages (nextPage st) \<and>
      1 \<le> currentPage (prevPage st) \<and> currentPage (prevPage st) \<le> totalPages (prevPage st) \<and>
      filteredUsers (nextPage st) = filteredUsers st \<and>
      filteredUsers (prevPage st) = filteredUsers st)"
proof -
  let ?p = "currentPage st"
  let ?n = "length (filteredUsers st)"
  have c1: "paginatedUsers st = take 10 (drop (nat ((?p - 1) * 10)) (filteredUsers st))"
    if "1 \<le> ?p"
    using that by (rule paginatedUsers_eq)
  have len: "length (paginatedUsers st) = min 10 (?n - nat ((?p - 1) * 10))" if "1 \<le> ?p"
    using that by (rule length_paginatedUsers)
  have c2: "length (paginatedUsers st) = 10" if "1 \<le> ?p" "?p < totalPages st"
  proof -
    have "0 \<le> (?p - 1) * 10" using that(1) by simp
    then obtain k where k: "(?p - 1) * 10 = int k"
      using zero_le_imp_eq_int by blast
    have "?p * 10 < int ?n" using that(2) by (simp add: lt_totalPages_iff)
    moreover have "?p * 10 = int k + 10" using k by simp
    ultimately have "k + 10 < ?n" by linarith
    moreover have "length (paginatedUsers st) = min 10 (?n - k)"
      using len [OF that(1)] by (simp only: k nat_int)
    ultimately show ?thesis by simp
  qed
  have c3: "1 \<le> length (paginatedUsers st) \<and> length (paginatedUsers st) \<le> 10 \<and>
      length (paginatedUsers st) = ?n - 10 * nat (?p - 1)"
    if "1 \<le> ?p" "?p = totalPages st"
  proof -
    have "0 \<le> ?p - 1" using that(1) by simp
    then obtain j where j: "?p - 1 = int j"
      using zero_le_imp_eq_int by blast
    have k: "(?p - 1) * 10 = int (10 * j)" using j by simp
    have p10: "?p * 10 = int (10 * j) + 10" using j by simp
    have "totalPages st \<le> ?p" using that(2) by simp
    then have "int ?n \<le> ?p * 10" by (simp add: totalPages_le_iff)
    then have up: "?n \<le> 10 * j + 10" using p10 by linarith
    have "?p - 1 < totalPages st" using that(2) by simp
    then have "(?p - 1) * 10 < int ?n" by (simp only: lt_totalPages_iff)
    then have lo: "10 * j < ?n" using k by linarith
    have a: "?n - 10 * j \<le> 10" using up by linarith
    have b: "1 \<le> ?n - 10 * j" using lo by linarith
    have "length (paginatedUsers st) = min 10 (?n - 10 * j)"
      using len [OF that(1)] by (simp only: k nat_int)
    then have c: "length (paginatedUsers st) = ?n - 10 * j" using a by simp
    have "nat (?p - 1) = j" using j by simp
    then show ?thesis using a b c by simp
  qed
  have c4: "totalPages st = 3 \<and>
      (?p = 1 \<longrightarrow> length (paginatedUsers st) = 10) \<and>
      (?p = 3 \<longrightarrow> length (paginatedUsers st) = 5 \<and> nextPage st = st)"
    if n: "?n = 25"
  proof -
    have "2 < totalPages st" using n by (simp add: lt_totalPages_iff)
    moreover have "totalPages st \<le> 3" using n by (simp add: totalPages_le_iff)
    ultimately have tp: "totalPages st = 3" by linarith
    have p1: "length (paginatedUsers st) = 10" if "?p = 1"
      using len [of] that n by simp
    have p3: "length (paginatedUsers st) = 5" if "?p = 3"
      using len [of] that n by simp
    have np: "nextPage st = st" if "?p = 3"
      using that tp by (simp add: nextPage_def)
    show ?thesis using tp p1 p3 np by blast
  qed
  have c5: "nextPage st = st" if "?p = totalPages st"
    using that by (simp add: nextPage_def)
  have c6: "prevPage st = st" if "?p = 1"
    using that by (simp add: prevPage_def)
  have c7: "1 \<le> currentPage (nextPage st) \<and> currentPage (nextPage st) \<le> totalPages (nextPage st) \<and>
      1 \<le> currentPage (prevPage st) \<and> currentPage (prevPage st) \<le> totalPages (prevPage st) \<and>
      filteredUsers (nextPage st) = filteredUsers st \<and>
      filteredUsers (prevPage st) = filteredUsers st"
    if "1 \<le> ?p" "?p \<le> totalPages st"
    unfolding totalPages_nextPage totalPages_prevPage
    using that by (simp add: nextPage_def prevPage_def)
  show ?thesis
    using c1 c2 c3 c4 c5 c6 c7 by blast
qed

theorem pagination_witness:
  "length (filteredUsers (initialState\<lparr>filteredUsers :=
       replicate 25 (mkUser (userDoc ''a'' [''Guitar''] [] JNull)), currentPage := 3\<rparr>)) = 25 \<and>
   totalPages (initialState\<lparr>filteredUsers :=
       replicate 25 (mkUser (userDoc ''a'' [''Guitar''] [] JNull)), currentPage := 3\<rparr>) = 3 \<and>
   length (paginatedUsers (initialState\<lparr>filteredUsers :=
       replicate 25 (mkUser (userDoc ''a'' [''Guitar''] [] JNull)), currentPage := 3\<rparr>)) = 5 \<and>
   nextPage (initialState\<lparr>filteredUsers :=
       replicate 25 (mkUser (userDoc ''a'' [''Guitar''] [] JNull)), currentPage := 3\<rparr>) =
     initialState\<lparr>filteredUsers :=
       replicate 25 (mkUser (userDoc ''a'' [''Guitar''] [] JNull)), currentPage := 3\<rparr> \<and>
   1 \<le> currentPage (initialState\<lparr>filteredUsers :=
       replicate 25 (mkUser (userDoc ''a'' [''Guitar''] [] JNull)), currentPage := 1\<rparr>) \<and>
   currentPage (initialState\<lparr>filteredUsers :=
       replicate 25 (mkUser (userDoc ''a'' [''Guitar''] [] JNull)), currentPage := 1\<rparr>) <
     totalPages (initialState\<lparr>filteredUsers :=
       replicate 25 (mkUser (userDoc ''a'' [''Guitar''] [] JNull)), currentPage := 1\<rparr>) \<and>
   length (paginatedUsers (initialState\<lparr>filteredUsers :=
       replicate 25 (mkUser (userDoc ''a'' [''Guitar''] [] JNull)), currentPage := 1\<rparr>)) = 10 \<and>
   prevPage (initialState\<lparr>filteredUsers :=
       replicate 25 (mkUser (userDoc ''a'' [''Guitar''] [] JNull)), currentPage := 1\<rparr>) =
     initialState\<lparr>filteredUsers :=
       replicate 25 (mkUser (userDoc ''a'' [''Guitar''] [] JNull)), currentPage := 1\<rparr> \<and>
   currentPage (nextPage (initialState\<lparr>filteredUsers :=
       replicate 25 (mkUser (userDoc ''a'' [''Guitar''] [] JNull)), currentPage := 1\<rparr>)) \<le>
     totalPages (nextPage (initialState\<lparr>filteredUsers :=
       replicate 25 (mkUser (userDoc ''a'' [''Guitar''] [] JNull)), currentPage := 1\<rparr>))"
proof -
  let ?xs = "replicate 25 (mkUser (userDoc ''a'' [''Guitar''] [] JNull))"
  let ?s3 = "initialState\<lparr>filteredUsers := ?xs, currentPage := 3\<rparr>"
  let ?s1 = "initialState\<lparr>filteredUsers := ?xs, currentPage := 1\<rparr>"
  have n3: "length (filteredUsers ?s3) = 25" by simp
  have n1: "length (filteredUsers ?s1) = 25" by simp
  have p3: "currentPage ?s3 = 3" by simp
  have p1: "currentPage ?s1 = 1" by simp
  have ge1: "1 \<le> currentPage ?s1" by simp
  have ge3: "1 \<le> currentPage ?s3" by simp
  note t3 = pagination [of ?s3, THEN conjunct2, THEN conjunct2, THEN conjunct2, THEN conjunct1,
      rule_format, OF n3]
  note t1 = pagination [of ?s1, THEN conjunct2, THEN conjunct2, THEN conjunct2, THEN conjunct1,
      rule_format, OF n1]
  have a: "totalPages ?s3 = 3" by (rule t3 [THEN conjunct1])
  have a1: "totalPages ?s1 = 3" by (rule t1 [THEN conjunct1])
  have lt: "currentPage ?s1 < totalPages ?s1" unfolding a1 by simp
  have le: "currentPage ?s1 \<le> totalPages ?s1" unfolding a1 by simp
  have last: "currentPage ?s3 = totalPages ?s3" unfolding a by simp
  have full: "length (paginatedUsers ?s1) = 10"
    by (rule pagination [of ?s1, THEN conjunct2, THEN conjunct1, rule_format, OF ge1 lt])
  have short: "length (paginatedUsers ?s3) =
      length (filteredUsers ?s3) - 10 * nat (currentPage ?s3 - 1)"
    by (rule pagination [of ?s3, THEN conjunct2, THEN conjunct2, THEN conjunct1, rule_format,
          OF ge3 last, THEN conjunct2, THEN conjunct2])
  have five: "length (paginatedUsers ?s3) = 5" unfolding short by simp
  have stay: "nextPage ?s3 = ?s3"
    by (rule pagination [of ?s3, THEN conjunct2, THEN conjunct2, THEN conjunct2, THEN conjunct2,
          THEN conjunct1, rule_format, OF last])
  have unchanged: "prevPage ?s1 = ?s1"
    by (rule pagination [of ?s1, THEN conjunct2, THEN conjunct2, THEN conjunct2, THEN conjunct2,
          THEN conjunct2, THEN conjunct1, rule_format, OF p1])
  have within: "currentPage (nextPage ?s1) \<le> totalPages (nextPage ?s1)"
    by (rule pagination [of ?s1, THEN conjunct2, THEN conjunct2, THEN conjunct2, THEN conjunct2,
          THEN conjunct2, THEN conjunct2, rule_format, OF ge1 le, THEN conjunct2, THEN conjunct1])
  show ?thesis
    using n3 a five stay ge1 lt full unchanged within by blast
qed

section \<open>The radius stage at radius 5 around (0, 0)\<close>

lemma atan2_sin_cos:
  assumes "0 \<le> t" "t < pi / 2"
  shows "atan2 (sqrt ((sin t)\<^sup>2)) (sqrt (1 - (sin t)\<^sup>2)) = t"
proof -
  have s: "0 \<le> sin t" using assms pi_gt_zero by (intro sin_ge_zero) linarith+
  have c: "0 < cos t" using assms by (intro cos_gt_zero_pi) linarith+
  have "1 - (sin t)\<^sup>2 = (cos t)\<^sup>2"
    using sin_cos_squared_add [of t] by linarith
  then have "sqrt (1 - (sin t)\<^sup>2) = cos t" using c by simp
  moreover have "sqrt ((sin t)\<^sup>2) = sin t" using s by simp
  moreover have "arctan (sin t / cos t) = t"
    using assms arctan_tan [of t] by (simp add: tan_def)
  ultimately show ?thesis using c by (simp add: atan2_def)
qed

lemma hav_km_equator:
  assumes "0 \<le> y" "y < 180"
  shows "hav_km 0 0 0 y = 6371 * (y * pi / 180)"
proof -
  let ?t = "y * pi / 180 / 2"
  have a: "hav_a (0 * pi / 180) (0 * pi / 180) ((y - 0) * pi / 180) = (sin ?t)\<^sup>2"
    by (simp add: hav_a_def)
  have "0 \<le> ?t" using assms by simp
  moreover have "?t < pi / 2" using assms pi_gt_zero by simp
  ultimately have "atan2 (sqrt ((sin ?t)\<^sup>2)) (sqrt (1 - (sin ?t)\<^sup>2)) = ?t"
    by (rule atan2_sin_cos)
  then have "6371 * (2 * atan2 (sqrt ((sin ?t)\<^sup>2)) (sqrt (1 - (sin ?t)\<^sup>2))) =
      6371 * (2 * ?t)"
    by (simp only:)
  also have "\<dots> = 6371 * (y * pi / 180)" by simp
  finally show ?thesis
    unfolding hav_km_def Let_def a .
qed

lemma hav_km_meridian:
  assumes "0 \<le> x" "x < 180"
  shows "hav_km 0 0 x 0 = 6371 * (x * pi / 180)"
proof -
  let ?t = "x * pi / 180 / 2"
  have a: "hav_a (0 * pi / 180) (x * pi / 180) ((0 - 0) * pi / 180) = (sin ?t)\<^sup>2"
    by (simp add: hav_a_def)
  have "0 \<le> ?t" using assms by simp
  moreover have "?t < pi / 2" using assms pi_gt_zero by simp
  ultimately have "atan2 (sqrt ((sin ?t)\<^sup>2)) (sqrt (1 - (sin ?t)\<^sup>2)) = ?t"
    by (rule atan2_sin_cos)
  then have "6371 * (2 * atan2 (sqrt ((sin ?t)\<^sup>2)) (sqrt (1 - (sin ?t)\<^sup>2))) =
      6371 * (2 * ?t)"
    by (simp only:)
  also have "\<dots> = 6371 * (x * pi / 180)" by simp
  finally show ?thesis
    unfolding hav_km_def Let_def a .
qed

lemma radiusKeep_numeric:
  assumes l: "location u = JObject (point x y)"
  shows "radiusKeep (point a b) (Num r) u = Inr (x \<noteq> 0 \<and> hav_km a b x y \<le> r)"
proof -
  have p: "\<lparr>latitude = latitude (point a b), longitude = longitude (point a b)\<rparr> = point a b"
    by (simp add: point_def)
  have q: "\<lparr>latitude = VNum (Num x), longitude = VNum (Num y)\<rparr> = point x y"
    by (simp add: point_def)
  have la: "get_latitude (location u) = Inr (VNum (Num x))"
    by (simp add: l point_def)
  have lo: "get_longitude (location u) = Inr (VNum (Num y))"
    by (simp add: l point_def)
  have tr: "any_truthy (location u)" by (simp add: l)
  have ty: "typeof (location u) = ''object''" by (simp add: l)
  show ?thesis
  proof (cases "x = 0")
    case True
    then show ?thesis
      unfolding radiusKeep_def la lo by (simp add: tr ty)
  next
    case False
    then have "radiusKeep (point a b) (Num r) u =
        Inr (js_le (haversineDistance (point a b) (point x y)) (Num r))"
      unfolding radiusKeep_def la lo p by (simp add: tr ty Let_def q)
    then show ?thesis using False by (simp add: haversineDistance_point)
  qed
qed

lemma deg_4_9: "0 \<le> 882 / (6371 * pi) \<and> 882 / (6371 * pi) < 180 \<and> 882 / (6371 * pi) \<noteq> 0"
proof -
  have "2 \<le> pi" by (rule pi_ge_two)
  then have big: "882 < 180 * (6371 * pi)" by linarith
  have pos: "0 < 6371 * pi" using pi_gt_zero by simp
  have "882 / (6371 * pi) < 180" using big pos by (simp add: pos_divide_less_eq)
  moreover have "0 < 882 / (6371 * pi)" using pos by simp
  ultimately show ?thesis by simp
qed

lemma km_4_9: "6371 * (882 / (6371 * pi) * pi / 180) = (4.9::real)"
proof -
  have "pi \<noteq> 0" using pi_gt_zero by simp
  then show ?thesis by (simp add: field_simps)
qed

text \<open>
  What the radius stage does with a candidate, for the current user at \<open>(0, 0)\<close> and
  radius 5: a candidate without location is removed, a candidate with a numeric
  coordinate at 5.1 km is removed, and one at 4.9 km is kept provided its latitude is
  not 0.
\<close>

lemma radius_stage_5km:
  "(\<not> any_truthy (location u) \<longrightarrow> radiusKeep (point 0 0) (Num 5) u = Inr False) \<and>
   (location u = JObject (point x y) \<longrightarrow> hav_km 0 0 x y = 5.1 \<longrightarrow>
      radiusKeep (point 0 0) (Num 5) u = Inr False) \<and>
   (location u = JObject (point x y) \<longrightarrow> hav_km 0 0 x y = 4.9 \<longrightarrow> x \<noteq> 0 \<longrightarrow>
      radiusKeep (point 0 0) (Num 5) u = Inr True)"
proof (intro conjI impI)
  assume "\<not> any_truthy (location u)"
  then show "radiusKeep (point 0 0) (Num 5) u = Inr False"
    by (rule radiusKeep_no_location)
next
  assume "location u = JObject (point x y)" and "hav_km 0 0 x y = 5.1"
  then show "radiusKeep (point 0 0) (Num 5) u = Inr False"
    using radiusKeep_numeric [of u x y 0 0 5] by simp
next
  assume "location u = JObject (point x y)" and "hav_km 0 0 x y = 4.9" and "x \<noteq> 0"
  then show "radiusKeep (point 0 0) (Num 5) u = Inr True"
    using radiusKeep_numeric [of u x y 0 0 5] by simp
qed

text \<open>
  C1: with the radius filter on, radius 5 and the current user at \<open>(0, 0)\<close>, a candidate
  at 4.9 km is to be kept. The candidate on the equator at latitude 0 and longitude
  \<open>882 / (6371 * pi)\<close> degrees is at 4.9 km and the radius stage removes it, because its
  latitude is falsy; the candidate at the same distance on the meridian is kept.
\<close>

theorem radius_stage_equator_candidate:
  "haversineDistance (point 0 0) (point 0 (882 / (6371 * pi))) = Num 4.9 \<and>
   radiusFilter True (Some (point 0 0)) (Num 5)
     [mkUser (userDoc ''e'' [''Guitar''] [] (JObject (point 0 (882 / (6371 * pi)))))] = Inr [] \<and>
   haversineDistance (point 0 0) (point (882 / (6371 * pi)) 0) = Num 4.9 \<and>
   radiusFilter True (Some (point 0 0)) (Num 5)
     [mkUser (userDoc ''m'' [''Guitar''] [] (JObject (point (882 / (6371 * pi)) 0)))] =
     Inr [mkUser (userDoc ''m'' [''Guitar''] [] (JObject (point (882 / (6371 * pi)) 0)))]"
proof -
  let ?L = "882 / (6371 * pi)"
  let ?e = "mkUser (userDoc ''e'' [''Guitar''] [] (JObject (point 0 ?L)))"
  let ?m = "mkUser (userDoc ''m'' [''Guitar''] [] (JObject (point ?L 0)))"
  have L: "0 \<le> ?L" "?L < 180" "?L \<noteq> 0" using deg_4_9 by blast+
  have e_km: "hav_km 0 0 0 ?L = 4.9"
    using hav_km_equator [OF L(1,2)] km_4_9 by simp
  have m_km: "hav_km 0 0 ?L 0 = 4.9"
    using hav_km_meridian [OF L(1,2)] km_4_9 by simp
  have le: "location ?e = JObject (point 0 ?L)" by (simp add: mkUser_def userDoc_def)
  have lm: "location ?m = JObject (point ?L 0)" by (simp add: mkUser_def userDoc_def)
  have ke: "radiusKeep (point 0 0) (Num 5) ?e = Inr False"
    using radiusKeep_numeric [OF le, of 0 0 5] by simp
  have km: "radiusKeep (point 0 0) (Num 5) ?m = Inr True"
    using radiusKeep_numeric [OF lm, of 0 0 5] L(3) m_km by simp
  have d1: "haversineDistance (point 0 0) (point 0 ?L) = Num 4.9"
    by (simp only: haversineDistance_point e_km)
  have d2: "haversineDistance (point 0 0) (point ?L 0) = Num 4.9"
    by (simp only: haversineDistance_point m_km)
  have r1: "radiusFilter True (Some (point 0 0)) (Num 5) [?e] = Inr []"
    by (simp add: radiusFilter_def ke)
  have r2: "radiusFilter True (Some (point 0 0)) (Num 5) [?m] = Inr [?m]"
    by (simp add: radiusFilter_def km)
  show ?thesis using d1 d2 r1 r2 by blast
qed

section \<open>Locations that are malformed or only partially present\<close>

text \<open>
  The radius stage and \<open>applyFilters\<close> never throw. The callback returns \<open>false\<close> for
  a location that is not an object, for an object whose latitude is falsy (missing,
  \<open>null\<close>, 0, \<open>NaN\<close>), and for an object whose longitude is missing or \<open>NaN\<close>: the
  distance is then \<open>NaN\<close> and the comparison with the radius is false.
\<close>

lemma radius_stage_unusable_location:
  "(\<exists>ys. radiusFilter use cur r us = Inr ys) \<and>
   (\<exists>st'. applyFilters st = Inr st') \<and>
   (typeof (location u) \<noteq> ''object'' \<longrightarrow> radiusKeep c r u = Inr False) \<and>
   (location u = JObject p \<longrightarrow> \<not> val_truthy (latitude p) \<longrightarrow> radiusKeep c r u = Inr False) \<and>
   (location u = JObject p \<longrightarrow> ToNumber (longitude p) = NaN \<longrightarrow> radiusKeep c r u = Inr False)"
proof (intro conjI impI)
  show "\<exists>ys. radiusFilter use cur r us = Inr ys" by (simp add: radiusFilter_eq)
  show "\<exists>st'. applyFilters st = Inr st'" by (simp add: applyFilters_eq)
next
  assume "typeof (location u) \<noteq> ''object''"
  then show "radiusKeep c r u = Inr False" by (rule radiusKeep_non_object)
next
  assume "location u = JObject p" and "\<not> val_truthy (latitude p)"
  then show "radiusKeep c r u = Inr False" by (simp add: radiusKeep_def)
next
  assume "location u = JObject p" and "ToNumber (longitude p) = NaN"
  then show "radiusKeep c r u = Inr False" by (intro radiusKeep_NaN) auto
qed

lemma km_null_longitude: "hav_km 0 0 0.01 0 \<le> 5"
proof -
  have "hav_km 0 0 0.01 0 = 6371 * (0.01 * pi / 180)"
    by (rule hav_km_meridian) simp_all
  moreover have "pi < 4" by (rule pi_less_4)
  ultimately show ?thesis by simp
qed

text \<open>
  C7: with the radius filter active, a candidate whose location is malformed or only
  partially present is to be removed like a candidate without location. The candidate
  with location \<open>{latitude: 0.01, longitude: null}\<close> has no longitude; the guard of the
  radius stage tests the latitude only, \<open>null - 0\<close> is \<open>0\<close>, the distance from
  \<open>(0, 0)\<close> is about 1.11 km, and the stage keeps the candidate at radius 5. The filter
  of \<open>handleOpenMap\<close> tests the longitude too and leaves the same candidate out; a
  candidate without location is removed by the radius stage.
\<close>

theorem null_longitude_candidate_kept:
  "malformed (location (mkUser (userDoc ''n'' [''Guitar''] []
      (JObject \<lparr>latitude = VNum (Num 0.01), longitude = VNull\<rparr>)))) \<and>
   radiusKeep (point 0 0) (Num 5) (mkUser (userDoc ''n'' [''Guitar''] []
      (JObject \<lparr>latitude = VNum (Num 0.01), longitude = VNull\<rparr>))) = Inr True \<and>
   radiusFilter True (Some (point 0 0)) (Num 5)
     [mkUser (userDoc ''n'' [''Guitar''] []
        (JObject \<lparr>latitude = VNum (Num 0.01), longitude = VNull\<rparr>))] =
     Inr [mkUser (userDoc ''n'' [''Guitar''] []
        (JObject \<lparr>latitude = VNum (Num 0.01), longitude = VNull\<rparr>))] \<and>
   usersWithLocation
     [mkUser (userDoc ''n'' [''Guitar''] []
        (JObject \<lparr>latitude = VNum (Num 0.01), longitude = VNull\<rparr>))] = Inr [] \<and>
   radiusFilter True (Some (point 0 0)) (Num 5)
     [mkUser (userDoc ''s'' [''Guitar''] [] JNull)] = Inr []"
proof -
  let ?loc = "JObject \<lparr>latitude = VNum (Num 0.01), longitude = VNull\<rparr>"
  let ?n = "mkUser (userDoc ''n'' [''Guitar''] [] ?loc)"
  let ?s = "mkUser (userDoc ''s'' [''Guitar''] [] JNull)"
  have l: "location ?n = ?loc" by (simp add: mkUser_def userDoc_def)
  have ls: "location ?s = JNull" by (simp add: mkUser_def userDoc_def)
  have m: "malformed (location ?n)" unfolding l by simp
  have "haversineDistance \<lparr>latitude = latitude (point 0 0), longitude = longitude (point 0 0)\<rparr>
          \<lparr>latitude = VNum (Num 0.01), longitude = VNull\<rparr> =
        haversineDistance (point 0 0) (point 0.01 0)"
    by (rule haversineDistance_ToNumber) (simp_all add: point_def)
  also have "\<dots> = Num (hav_km 0 0 0.01 0)" by (rule haversineDistance_point)
  finally have d: "haversineDistance
          \<lparr>latitude = latitude (point 0 0), longitude = longitude (point 0 0)\<rparr>
          \<lparr>latitude = VNum (Num 0.01), longitude = VNull\<rparr> = Num (hav_km 0 0 0.01 0)" .
  have jl: "js_le (haversineDistance
          \<lparr>latitude = latitude (point 0 0), longitude = longitude (point 0 0)\<rparr>
          \<lparr>latitude = VNum (Num 0.01), longitude = VNull\<rparr>) (Num 5)"
    unfolding d using km_null_longitude by simp
  have k: "radiusKeep (point 0 0) (Num 5) ?n = Inr True"
    unfolding radiusKeep_def l using jl by (simp add: Let_def)
  have ks: "radiusKeep (point 0 0) (Num 5) ?s = Inr False"
    unfolding radiusKeep_def ls by simp
  have r: "radiusFilter True (Some (point 0 0)) (Num 5) [?n] = Inr [?n]"
    using k by (simp add: radiusFilter_def)
  have rs: "radiusFilter True (Some (point 0 0)) (Num 5) [?s] = Inr []"
    using ks by (simp add: radiusFilter_def)
  have h: "hasMapLocation ?n = Inr False"
    unfolding hasMapLocation_def l by simp
  have w: "usersWithLocation [?n] = Inr []"
    using h by (simp add: usersWithLocation_def)
  show ?thesis using m k r w rs by blast
qed

end
